theory Spec2Isabelle
  imports Main
begin

section \<open>Genshi markup events\<close>

text \<open>
  The formatter of \<^verbatim>\<open>trac/mimeview/pygments_renderer.py\<close> yields Genshi events:
  triples of a kind, a payload and a position. A qualified name is a string, and
  \<^verbatim>\<open>Attrs\<close> is a sequence of (name, value) pairs, so its truth value in a Python
  condition is that of the sequence: false exactly when it is empty.
\<close>

type_synonym qname = string
type_synonym attrs = "(qname \<times> string) list"
type_synonym pos = "string option \<times> int \<times> int"

datatype event =
    START "qname \<times> attrs" pos
  | END qname pos
  | TEXT string pos

definition QName :: "string \<Rightarrow> qname" where
  "QName s = s"

definition Attrs :: "(qname \<times> string) list \<Rightarrow> attrs" where
  "Attrs xs = xs"

text \<open>Truth value of \<^verbatim>\<open>lattrs\<close>, which is \<^verbatim>\<open>None\<close> or an \<^verbatim>\<open>Attrs\<close>.\<close>

fun truthy :: "attrs option \<Rightarrow> bool" where
  "truthy None = False"
| "truthy (Some a) = (a \<noteq> [])"

section \<open>GenshiHtmlFormatter.generate\<close>

text \<open>
  \<^verbatim>\<open>pos = (None, -1, -1)\<close> and \<^verbatim>\<open>span = QName('span')\<close> are fixed at the start
  of \<^verbatim>\<open>generate\<close>.
\<close>

definition pos0 :: pos where
  "pos0 = (None, -1, -1)"

definition span :: qname where
  "span = QName ''span''"

text \<open>
  The body of the inner generator \<^verbatim>\<open>_generate\<close>: the loop over the tokens with the
  loop variable \<^verbatim>\<open>lattrs\<close> as an argument, and the statement after the loop at the
  empty list. The class function \<^verbatim>\<open>self._get_css_class\<close> is inherited from
  Pygments' \<^verbatim>\<open>HtmlFormatter\<close> and is a parameter here. A token is a pair of a token
  type and its text; the text is true in a condition when it is not empty.
\<close>

fun generate_loop :: "('t \<Rightarrow> string) \<Rightarrow> attrs option \<Rightarrow> ('t \<times> string) list \<Rightarrow> event list" where
  "generate_loop get_css_class lattrs [] =
     (if truthy lattrs then [END span pos0] else [])"
| "generate_loop get_css_class lattrs ((ttype, val) # tokens) =
     (let attrs = Attrs [(QName ''class'', get_css_class ttype)] in
      if Some attrs = lattrs then
        TEXT val pos0 # generate_loop get_css_class lattrs tokens
      else if val \<noteq> [] then
        (if truthy lattrs then [END span pos0] else []) @
        (if attrs \<noteq> [] then [START (span, attrs) pos0] else []) @
        TEXT val pos0 # generate_loop get_css_class (Some attrs) tokens
      else generate_loop get_css_class lattrs tokens)"

definition generate :: "('t \<Rightarrow> string) \<Rightarrow> ('t \<times> string) list \<Rightarrow> event list" where
  "generate get_css_class tokens = generate_loop get_css_class None tokens"

subsection \<open>Observations on an event stream\<close>

fun text_of :: "event \<Rightarrow> string" where
  "text_of (TEXT v p) = v"
| "text_of (START a p) = []"
| "text_of (END q p) = []"

definition text_content :: "event list \<Rightarrow> string" where
  "text_content evs = concat (map text_of evs)"

text \<open>
  Nesting depth after a stream read from depth \<open>d\<close>; \<open>None\<close> when a span is opened
  inside an open span or closed while none is open.
\<close>

fun nesting :: "nat \<Rightarrow> event list \<Rightarrow> nat option" where
  "nesting d [] = Some d"
| "nesting d (START a p # evs) = (if d = 0 then nesting 1 evs else None)"
| "nesting d (END q p # evs) = (if d = 0 then None else nesting (d - 1) evs)"
| "nesting d (TEXT v p # evs) = nesting d evs"

definition well_nested :: "event list \<Rightarrow> bool" where
  "well_nested evs = (nesting 0 evs = Some 0)"

fun is_start :: "event \<Rightarrow> bool" where
  "is_start (START a p) = True"
| "is_start (END q p) = False"
| "is_start (TEXT v p) = False"

fun is_end :: "event \<Rightarrow> bool" where
  "is_end (START a p) = False"
| "is_end (END q p) = True"
| "is_end (TEXT v p) = False"

definition span_opens :: "event list \<Rightarrow> nat" where
  "span_opens evs = length (filter is_start evs)"

definition span_closes :: "event list \<Rightarrow> nat" where
  "span_closes evs = length (filter is_end evs)"

text \<open>Some two neighbouring tokens have the same token type.\<close>

fun adjacent_same :: "('t \<times> string) list \<Rightarrow> bool" where
  "adjacent_same [] = False"
| "adjacent_same [a] = False"
| "adjacent_same (a # b # ts) = (if fst a = fst b then True else adjacent_same (b # ts))"

text \<open>
  A sample class function on token types written as paths below \<^verbatim>\<open>Token\<close>. As in
  Pygments' table of standard types, the root \<^verbatim>\<open>Token\<close> and \<^verbatim>\<open>Token.Text\<close> both
  have the empty class.
\<close>

definition sample_css :: "string list \<Rightarrow> string" where
  "sample_css ttype =
     (if ttype = [] then []
      else if ttype = [''Text''] then []
      else if ttype = [''Keyword''] then ''k''
      else if ttype = [''Comment''] then ''c''
      else ''x'')"

section \<open>PygmentsRenderer\<close>

text \<open>
  Python exceptions are values: a method that can raise returns a sum whose left side is
  the exception. \<^verbatim>\<open>ValueError\<close> stands for the class and its subclasses, among them
  Pygments' \<^verbatim>\<open>ClassNotFound\<close>; \<^verbatim>\<open>Exception\<close> is the plain exception that
  \<^verbatim>\<open>render\<close> raises with a message.
\<close>

datatype exn =
    KeyError
  | ValueError string
  | IndexError
  | TypeError
  | NameError
  | ImportError
  | HTTPNotFound string
  | Exception string

text \<open>
  A lexer as \<^verbatim>\<open>get_all_lexers\<close> yields it: name, aliases, file names, MIME types.
  The table \<^verbatim>\<open>self._types\<close> maps a MIME type to a pair (mode, quality).
\<close>

type_synonym lexer_info = "string \<times> string list \<times> string list \<times> string list"
type_synonym modes = "string \<rightharpoonup> (string \<times> int)"

record lexer_cls =
  cls_name :: string
  cls_aliases :: "string list"
  cls_filenames :: "string list"
  cls_mimetypes :: "string list"

text \<open>
  What the module reads from outside: whether the import of Pygments succeeded, the
  values of Pygments' \<^verbatim>\<open>LEXERS\<close> mapping (a module name before the four fields) in
  the order of iteration, the plugin lexer classes, the option
  \<^verbatim>\<open>pygments_default_style\<close>, and the dictionary that
  \<^verbatim>\<open>Mimeview(self.env).configured_modes_mapping('pygments')\<close> returns.
\<close>

record env =
  have_pygments :: bool
  LEXERS :: "(string \<times> lexer_info) list"
  find_plugin_lexers :: "lexer_cls list"
  default_style :: string
  configured_modes_mapping :: modes

text \<open>
  The functions of Pygments that the module calls, over a type of lexers, of token types
  and of style classes. \<^verbatim>\<open>style_last_modified\<close> stands for the path from the style
  class to the HTTP date of its source file.
\<close>

record ('lx, 't, 'st) pygments =
  get_lexer_by_name :: "string \<Rightarrow> exn + 'lx"
  get_tokens :: "'lx \<Rightarrow> string \<Rightarrow> exn + (('t \<times> string) list \<times> exn option)"
  get_css_class :: "'t \<Rightarrow> string"
  get_style_by_name :: "string \<Rightarrow> exn + 'st"
  style_last_modified :: "'st \<Rightarrow> exn + string"
  get_style_defs :: "'st \<Rightarrow> string \<Rightarrow> string"

text \<open>The component holds \<^verbatim>\<open>self._types\<close>, which is \<^verbatim>\<open>None\<close> until the first use.\<close>

record renderer =
  self_types :: "modes option"

definition QUALITY_RATIO :: int where
  "QUALITY_RATIO = 7"

definition get_all_lexers :: "(string \<times> lexer_info) list \<Rightarrow> lexer_cls list \<Rightarrow> lexer_info list" where
  "get_all_lexers lexers plugins =
     map snd lexers @
     map (\<lambda>cls. (cls_name cls, cls_aliases cls, cls_filenames cls, cls_mimetypes cls)) plugins"

subsection \<open>The table of MIME types\<close>

text \<open>
  The inner loop of \<^verbatim>\<open>_init_types\<close> over the MIME types of one lexer:
  \<^verbatim>\<open>aliases[0]\<close> raises \<^verbatim>\<open>IndexError\<close> on an empty list, and the table keeps what
  was stored before.
\<close>

fun init_mimetypes :: "string list \<Rightarrow> string list \<Rightarrow> modes \<Rightarrow> (exn + unit) \<times> modes" where
  "init_mimetypes aliases [] t = (Inr (), t)"
| "init_mimetypes aliases (mimetype # mimetypes) t =
     (case aliases of
        [] \<Rightarrow> (Inl IndexError, t)
      | a # as \<Rightarrow> init_mimetypes aliases mimetypes (t(mimetype \<mapsto> (a, QUALITY_RATIO))))"

fun init_lexers :: "lexer_info list \<Rightarrow> modes \<Rightarrow> (exn + unit) \<times> modes" where
  "init_lexers [] t = (Inr (), t)"
| "init_lexers ((name, aliases, filenames, mimetypes) # lexers) t =
     (case init_mimetypes aliases mimetypes t of
        (Inl e, t') \<Rightarrow> (Inl e, t')
      | (Inr u, t') \<Rightarrow> init_lexers lexers t')"

definition init_types :: "env \<Rightarrow> renderer \<Rightarrow> (exn + unit) \<times> renderer" where
  "init_types e self =
     (if have_pygments e then
        (case init_lexers (get_all_lexers (LEXERS e) (find_plugin_lexers e)) Map.empty of
           (Inl x, t) \<Rightarrow> (Inl x, self\<lparr>self_types := Some t\<rparr>)
         | (Inr u, t) \<Rightarrow> (Inr (), self\<lparr>self_types := Some (t ++ configured_modes_mapping e)\<rparr>))
      else (Inr (), self\<lparr>self_types := Some Map.empty\<rparr>))"

text \<open>\<^verbatim>\<open>if self._types is None: self._init_types()\<close>\<close>

definition ensure_types :: "env \<Rightarrow> renderer \<Rightarrow> (exn + unit) \<times> renderer" where
  "ensure_types e self =
     (if self_types self = None then init_types e self else (Inr (), self))"

text \<open>\<^verbatim>\<open>self._types[mimetype]\<close>: subscripting \<^verbatim>\<open>None\<close> is a \<^verbatim>\<open>TypeError\<close>, a missing key a \<^verbatim>\<open>KeyError\<close>.\<close>

definition types_getitem :: "renderer \<Rightarrow> string \<Rightarrow> exn + (string \<times> int)" where
  "types_getitem self mimetype =
     (case self_types self of
        None \<Rightarrow> Inl TypeError
      | Some t \<Rightarrow> (case t mimetype of None \<Rightarrow> Inl KeyError | Some entry \<Rightarrow> Inr entry))"

definition get_quality_ratio :: "env \<Rightarrow> renderer \<Rightarrow> string \<Rightarrow> (exn + int) \<times> renderer" where
  "get_quality_ratio e self mimetype =
     (case ensure_types e self of
        (Inl x, self') \<Rightarrow> (Inl x, self')
      | (Inr u, self') \<Rightarrow>
          (case types_getitem self' mimetype of
             Inl x \<Rightarrow> (case x of KeyError \<Rightarrow> (Inr 0, self') | _ \<Rightarrow> (Inl x, self'))
           | Inr entry \<Rightarrow> (Inr (snd entry), self')))"

text \<open>
  The entry that the lexers give a MIME type: the first alias of the last lexer, in the
  order of enumeration, that declares it.
\<close>

fun builtin_entry :: "lexer_info list \<Rightarrow> string \<Rightarrow> (string \<times> int) option" where
  "builtin_entry [] m = None"
| "builtin_entry ((name, aliases, filenames, mimetypes) # lexers) m =
     (case builtin_entry lexers m of
        Some entry \<Rightarrow> Some entry
      | None \<Rightarrow>
          (if m \<in> set mimetypes then
             (case aliases of [] \<Rightarrow> None | a # as \<Rightarrow> Some (a, QUALITY_RATIO))
           else None))"

definition resolved_entry :: "env \<Rightarrow> string \<Rightarrow> (string \<times> int) option" where
  "resolved_entry e m =
     (case configured_modes_mapping e m of
        Some entry \<Rightarrow> Some entry
      | None \<Rightarrow> builtin_entry (get_all_lexers (LEXERS e) (find_plugin_lexers e)) m)"

subsection \<open>Rendering\<close>

record request =
  req_args :: "string \<rightharpoonup> string"
  req_session :: "string \<rightharpoonup> string"
  req_if_modified_since :: "string option"
  req_stylesheets :: "string list"



text \<open>
  The tokens of a lexer are an iterator, and the result of \<^verbatim>\<open>generate\<close> is a
  \<^verbatim>\<open>Stream\<close> over a generator: nothing is tokenized until the stream is consumed.
  An iterator is the list of what it yields and how it ends, exhausted (\<open>None\<close>) or
  by raising (\<open>Some\<close>); a stream is the same for events.
\<close>

type_synonym 't token_iter = "('t \<times> string) list \<times> exn option"








subsection \<open>Serving a style sheet\<close>

datatype header_value = HStr string | HInt nat

record response =
  status :: nat
  headers :: "(string \<times> header_value) list"
  body :: string

text \<open>
  The module imports only \<^verbatim>\<open>IRequestHandler\<close> from \<^verbatim>\<open>trac.web\<close>, so the name
  \<^verbatim>\<open>HTTPNotFound\<close> is bound only if \<^verbatim>\<open>from trac.core import *\<close> brings it. The
  names that this import brings are a parameter. The name is looked up when the handler
  runs, and an unbound name is a \<^verbatim>\<open>NameError\<close>.
\<close>

definition process_request ::
  "env \<Rightarrow> ('lx, 't, 'st) pygments \<Rightarrow> string list \<Rightarrow> request \<Rightarrow> exn + response" where
  "process_request e pg trac_core_names req =
     (case req_args req ''style'' of
        None \<Rightarrow> Inl KeyError
      | Some style \<Rightarrow>
          (case (if have_pygments e then get_style_by_name pg style else Inl NameError) of
             Inl x \<Rightarrow>
               (case x of
                  ValueError m \<Rightarrow>
                    (if ''HTTPNotFound'' \<in> set trac_core_names then Inl (HTTPNotFound m)
                     else Inl NameError)
                | _ \<Rightarrow> Inl x)
           | Inr style_cls \<Rightarrow>
               (case style_last_modified pg style_cls of
                  Inl x \<Rightarrow> Inl x
                | Inr last_modified \<Rightarrow>
                    (if Some last_modified = req_if_modified_since req then
                       Inr \<lparr>status = 304, headers = [], body = []\<rparr>
                     else
                       (let content = get_style_defs pg style_cls ''div.code pre'' @
                              [CHR 0x0A, CHR 0x0A] @
                              get_style_defs pg style_cls ''table.code td''
                        in Inr \<lparr>status = 200,
                                headers = [(''Content-Type'', HStr ''text/css; charset=utf-8''),
                                           (''Last-Modified'', HStr last_modified),
                                           (''Content-Length'', HInt (length content))],
                                body = content\<rparr>)))))"

subsection \<open>Sample surroundings\<close>

text \<open>
  A Pygments with the lexers \<^verbatim>\<open>python\<close> and \<^verbatim>\<open>flaky\<close> and one style
  \<^verbatim>\<open>trac\<close>. Names that it does not know raise \<^verbatim>\<open>ClassNotFound\<close>, a
  \<^verbatim>\<open>ValueError\<close>; the lexer named \<^verbatim>\<open>broken\<close> fails to import. The tokens of
  \<^verbatim>\<open>python\<close> are a keyword and a text; the iterator of \<^verbatim>\<open>flaky\<close> yields a keyword
  and then raises a \<^verbatim>\<open>ValueError\<close>.
\<close>

definition sample_lexer_by_name :: "string \<Rightarrow> exn + string" where
  "sample_lexer_by_name alias =
     (if alias = ''python'' then Inr ''python''
      else if alias = ''flaky'' then Inr ''flaky''
      else if alias = ''broken'' then Inl ImportError
      else Inl (ValueError ''no lexer for alias found''))"

definition sample_tokens :: "string \<Rightarrow> string \<Rightarrow> exn + string list token_iter" where
  "sample_tokens lexer content =
     (if lexer = ''flaky'' then
        Inr ([([''Keyword''], ''def'')], Some (ValueError ''cannot tokenize''))
      else Inr ([([''Keyword''], ''def''), ([''Text''], content)], None))"

definition sample_style_by_name :: "string \<Rightarrow> exn + string" where
  "sample_style_by_name style =
     (if style = ''trac'' then Inr ''trac''
      else Inl (ValueError ''Could not find style module''))"

definition sample_last_modified :: "string \<Rightarrow> exn + string" where
  "sample_last_modified style_cls = Inr ''Thu, 01 Jan 2009 00:00:00 GMT''"

definition sample_style_defs :: "string \<Rightarrow> string \<Rightarrow> string" where
  "sample_style_defs style_cls selector = selector @ '' .k { font-weight: bold }''"

definition sample_pygments :: "(string, string list, string) pygments" where
  "sample_pygments =
     \<lparr>get_lexer_by_name = sample_lexer_by_name,
      get_tokens = sample_tokens,
      get_css_class = sample_css,
      get_style_by_name = sample_style_by_name,
      style_last_modified = sample_last_modified,
      get_style_defs = sample_style_defs\<rparr>"

definition sample_env :: env where
  "sample_env =
     \<lparr>have_pygments = True,
      LEXERS = [(''pygments.lexers.agile'',
                  (''Python'', [''python'', ''py''], [''*.py''], [''text/x-python''])),
                (''pygments.lexers.other'',
                  (''Python 3'', [''python3''], [], [''text/x-python'', ''text/x-python3''])),
                (''pygments.lexers.broken'',
                  (''Broken'', [''broken''], [], [''text/x-broken'']))],
      find_plugin_lexers = [],
      default_style = ''trac'',
      configured_modes_mapping =
        [''text/x-python3'' \<mapsto> (''python'', 9), ''text/x-mystery'' \<mapsto> (''nosuchlexer'', 5)]\<rparr>"

text \<open>A Pygments in which a lexer that declares a MIME type has no alias.\<close>

definition sample_env_no_alias :: env where
  "sample_env_no_alias =
     \<lparr>have_pygments = True,
      LEXERS = [(''pygments.lexers.special'', (''Raw'', [], [], [''text/x-raw'']))],
      find_plugin_lexers = [],
      default_style = ''trac'',
      configured_modes_mapping = Map.empty\<rparr>"

text \<open>The names that \<^verbatim>\<open>trac.core\<close> exports.\<close>

definition trac_core_all :: "string list" where
  "trac_core_all = [''Component'', ''ExtensionPoint'', ''implements'', ''Interface'', ''TracError'']"

text \<open>A component whose table was built before.\<close>

definition sample_types :: modes where
  "sample_types = [''text/x-python'' \<mapsto> (''python'', 7),
                   ''text/x-mystery'' \<mapsto> (''nosuchlexer'', 5),
                   ''text/x-broken'' \<mapsto> (''broken'', 7),
                   ''text/x-flaky'' \<mapsto> (''flaky'', 7)]"

definition sample_renderer :: renderer where
  "sample_renderer = \<lparr>self_types = Some sample_types\<rparr>"

definition sample_request :: request where
  "sample_request =
     \<lparr>req_args = [''style'' \<mapsto> ''nosuchstyle''],
      req_session = Map.empty,
      req_if_modified_since = None,
      req_stylesheets = []\<rparr>"

section \<open>Properties of the formatter\<close>

lemma text_content_loop:
  "text_content (generate_loop css l tokens) = concat (map snd tokens)"
proof (induction tokens arbitrary: l)
  case Nil
  show ?case by (simp add: text_content_def)
next
  case (Cons tok tokens)
  obtain ttype val where tok: "tok = (ttype, val)" by (cases tok)
  have step: "\<And>l'. text_content (generate_loop css l' tokens) = concat (map snd tokens)"
    using Cons.IH by simp
  show ?case
    unfolding tok
    by (simp add: Let_def text_content_def step [unfolded text_content_def])
qed

text \<open>
  C1. The texts of the TEXT events of the generated stream, concatenated in the order of
  the stream, are the texts of the input tokens concatenated in the order of the input.
\<close>

theorem generate_lossless:
  "text_content (generate css tokens) = concat (map snd tokens)"
  unfolding generate_def by (rule text_content_loop)

lemma nesting_loop:
  "nesting (if truthy l then 1 else 0) (generate_loop css l tokens) = Some 0"
proof (induction tokens arbitrary: l)
  case Nil
  show ?case by simp
next
  case (Cons tok tokens)
  obtain ttype val where tok: "tok = (ttype, val)" by (cases tok)
  have same: "nesting (if truthy l then 1 else 0) (generate_loop css l tokens) = Some 0"
    using Cons.IH by simp
  have opened: "nesting 1 (generate_loop css (Some (Attrs [(QName ''class'', css ttype)])) tokens) = Some 0"
    using Cons.IH [of "Some (Attrs [(QName ''class'', css ttype)])"] by (simp add: Attrs_def)
  show ?case
    unfolding tok using same opened
    by (simp add: Let_def Attrs_def)
qed

lemma span_opens_loop:
  "span_opens (generate_loop css l tokens) \<le> length tokens"
proof (induction tokens arbitrary: l)
  case Nil
  show ?case by (simp add: span_opens_def)
next
  case (Cons tok tokens)
  obtain ttype val where tok: "tok = (ttype, val)" by (cases tok)
  have step: "\<And>l'. length (filter is_start (generate_loop css l' tokens)) \<le> length tokens"
    using Cons.IH by (simp add: span_opens_def)
  show ?case
    unfolding tok span_opens_def
    using step [of l] step [of "Some (Attrs [(QName ''class'', css ttype)])"]
    by (simp add: Let_def Attrs_def le_SucI)
qed

lemma span_opens_adjacent:
  "adjacent_same tokens \<Longrightarrow> span_opens (generate_loop css l tokens) < length tokens"
proof (induction tokens arbitrary: l rule: adjacent_same.induct)
  case 1
  then show ?case by simp
next
  case (2 a)
  then show ?case by simp
next
  case (3 a b ts)
  obtain ta va where a: "a = (ta, va)" by (cases a)
  obtain tb vb where b: "b = (tb, vb)" by (cases b)
  show ?case
  proof (cases "ta = tb")
    case True
    have r: "\<And>l'. length (filter is_start (generate_loop css l' ts)) \<le> length ts"
      using span_opens_loop [of css _ ts] by (simp add: span_opens_def)
    show ?thesis
      unfolding a b True span_opens_def
      using r [of l] r [of "Some (Attrs [(QName ''class'', css tb)])"]
      by (simp add: Let_def Attrs_def le_imp_less_Suc less_SucI)
  next
    case False
    then have adj: "adjacent_same (b # ts)" using 3(2) a b by simp
    have ih: "\<And>l'. length (filter is_start (generate_loop css l' (b # ts))) < Suc (length ts)"
      using 3(1) [OF _ adj] False a b by (simp add: span_opens_def)
    show ?thesis
      unfolding a span_opens_def
      using ih [of l] ih [of "Some (Attrs [(QName ''class'', css ta)])"]
      by (simp add: Let_def Attrs_def less_SucI del: generate_loop.simps(2)
               add: generate_loop.simps(2) [of css l ta va "b # ts"])
  qed
qed

lemma closes_loop:
  "span_closes (generate_loop css l tokens) = span_opens (generate_loop css l tokens) + (if truthy l then 1 else 0)"
proof (induction tokens arbitrary: l)
  case Nil
  show ?case by (simp add: span_opens_def span_closes_def)
next
  case (Cons tok tokens)
  obtain ttype val where tok: "tok = (ttype, val)" by (cases tok)
  have step: "\<And>l'. length (filter is_end (generate_loop css l' tokens)) =
      length (filter is_start (generate_loop css l' tokens)) + (if truthy l' then 1 else 0)"
    using Cons.IH by (simp add: span_opens_def span_closes_def)
  show ?case
    unfolding tok span_opens_def span_closes_def
    using step [of l] step [of "Some (Attrs [(QName ''class'', css ttype)])"]
    by (simp add: Let_def Attrs_def)
qed

text \<open>
  C2. The generated stream is well nested with depth at most one: read from depth 0, no
  START occurs while a span is open, no END occurs while none is open, and the stream
  ends at depth 0.
\<close>

theorem generate_well_nested:
  "well_nested (generate css tokens)"
  unfolding well_nested_def generate_def
  using nesting_loop [of None css tokens] by simp

text \<open>
  C3, as amended. For token types \<open>A\<close> and \<open>B\<close> whose CSS classes differ and non-empty
  texts \<open>x\<close> and \<open>z\<close>, the tokens \<open>(A, x)\<close>, \<open>(A, y)\<close>, \<open>(B, z)\<close> give one span of
  class \<open>css A\<close> around the two texts of \<open>A\<close>, closed at the change of class, and then
  one span of class \<open>css B\<close>. The formatter compares the class attributes, not the token
  types.
\<close>

theorem generate_coalesces:
  assumes "css A \<noteq> css B" and "x \<noteq> []" and "z \<noteq> []"
  shows "generate css [(A, x), (A, y), (B, z)] =
    [START (span, Attrs [(QName ''class'', css A)]) pos0,
     TEXT x pos0, TEXT y pos0, END span pos0,
     START (span, Attrs [(QName ''class'', css B)]) pos0,
     TEXT z pos0, END span pos0]"
  using assms by (simp add: generate_def Let_def Attrs_def QName_def)

theorem generate_coalesces_witness:
  "sample_css [''Keyword''] \<noteq> sample_css [''Comment''] \<and> ''x'' \<noteq> [] \<and> ''z'' \<noteq> [] \<and>
   generate sample_css [([''Keyword''], ''x''), ([''Keyword''], ''y''), ([''Comment''], ''z'')] =
    [START (span, Attrs [(QName ''class'', sample_css [''Keyword''])]) pos0,
     TEXT ''x'' pos0, TEXT ''y'' pos0, END span pos0,
     START (span, Attrs [(QName ''class'', sample_css [''Comment''])]) pos0,
     TEXT ''z'' pos0, END span pos0]"
proof -
  have h: "sample_css [''Keyword''] \<noteq> sample_css [''Comment'']"
    by (simp add: sample_css_def)
  have x: "''x'' \<noteq> []" and z: "''z'' \<noteq> []" by simp_all
  show ?thesis
    using h generate_coalesces [where css = sample_css and A = "[''Keyword'']"
        and B = "[''Comment'']" and x = "''x''" and y = "''y''" and z = "''z''", OF h x z]
    by simp
qed

text \<open>
  C3 as stated fails for two distinct token types of one class: \<^verbatim>\<open>Token\<close> and
  \<^verbatim>\<open>Token.Text\<close> are merged into a single span.
\<close>

theorem generate_coalesces_counterexample:
  "([] :: string list) \<noteq> [''Text''] \<and>
   generate sample_css [([], ''x''), ([], ''y''), ([''Text''], ''z'')] =
    [START (span, Attrs [(QName ''class'', [])]) pos0,
     TEXT ''x'' pos0, TEXT ''y'' pos0, TEXT ''z'' pos0, END span pos0] \<and>
   generate sample_css [([], ''x''), ([], ''y''), ([''Text''], ''z'')] \<noteq>
    [START (span, Attrs [(QName ''class'', sample_css [])]) pos0,
     TEXT ''x'' pos0, TEXT ''y'' pos0, END span pos0,
     START (span, Attrs [(QName ''class'', sample_css [''Text''])]) pos0,
     TEXT ''z'' pos0, END span pos0]"
  by (simp add: generate_def Let_def Attrs_def QName_def sample_css_def)

text \<open>
  C4, as amended. For token types \<open>A\<close> and \<open>B\<close> whose CSS classes differ and a
  non-empty text \<open>x\<close>, the tokens \<open>(A, x)\<close>, \<open>(B, [])\<close>, \<open>(A, y)\<close> give a single
  span of class \<open>css A\<close> around the texts \<open>x\<close> and \<open>y\<close>: the empty token of another
  class emits nothing and leaves the span open.
\<close>

theorem generate_empty_text:
  assumes "css A \<noteq> css B" and "x \<noteq> []"
  shows "generate css [(A, x), (B, []), (A, y)] =
    [START (span, Attrs [(QName ''class'', css A)]) pos0,
     TEXT x pos0, TEXT y pos0, END span pos0]"
  using assms by (simp add: generate_def Let_def Attrs_def QName_def)

theorem generate_empty_text_witness:
  "sample_css [''Keyword''] \<noteq> sample_css [''Comment''] \<and> ''x'' \<noteq> [] \<and>
   generate sample_css [([''Keyword''], ''x''), ([''Comment''], []), ([''Keyword''], ''y'')] =
    [START (span, Attrs [(QName ''class'', sample_css [''Keyword''])]) pos0,
     TEXT ''x'' pos0, TEXT ''y'' pos0, END span pos0]"
proof -
  have h: "sample_css [''Keyword''] \<noteq> sample_css [''Comment'']"
    by (simp add: sample_css_def)
  have x: "''x'' \<noteq> []" by simp
  show ?thesis
    using h generate_empty_text [where css = sample_css and A = "[''Keyword'']"
        and B = "[''Comment'']" and x = "''x''" and y = "''y''", OF h x]
    by simp
qed

text \<open>
  C4 as stated fails for two distinct token types of one class: the empty token of
  \<^verbatim>\<open>Token.Text\<close> inside a span of \<^verbatim>\<open>Token\<close> emits a TEXT event with the empty text.
\<close>

theorem generate_empty_text_counterexample:
  "([] :: string list) \<noteq> [''Text''] \<and>
   generate sample_css [([], ''x''), ([''Text''], []), ([], ''y'')] =
    [START (span, Attrs [(QName ''class'', [])]) pos0,
     TEXT ''x'' pos0, TEXT [] pos0, TEXT ''y'' pos0, END span pos0] \<and>
   generate sample_css [([], ''x''), ([''Text''], []), ([], ''y'')] \<noteq>
    [START (span, Attrs [(QName ''class'', sample_css [])]) pos0,
     TEXT ''x'' pos0, TEXT ''y'' pos0, END span pos0]"
  by (simp add: generate_def Let_def Attrs_def QName_def sample_css_def)

text \<open>
  C5. A token type without a class of its own (\<^verbatim>\<open>Token.Text\<close>, whose class is the
  empty string) is still wrapped: the attributes hold one pair whatever the class is, so
  the test \<^verbatim>\<open>if attrs\<close> before the START never fails. A following token of the same
  type joins the open span.
\<close>

theorem generate_empty_class_wrapped:
  "sample_css [''Text''] = [] \<and>
   generate sample_css [([''Text''], ''x'')] =
    [START (span, Attrs [(QName ''class'', [])]) pos0, TEXT ''x'' pos0, END span pos0] \<and>
   generate sample_css [([''Text''], ''x''), ([''Text''], ''y'')] =
    [START (span, Attrs [(QName ''class'', [])]) pos0,
     TEXT ''x'' pos0, TEXT ''y'' pos0, END span pos0]"
  by (simp add: generate_def Let_def Attrs_def QName_def sample_css_def)

text \<open>
  C6. The stream has as many END events as START events, at most one such pair for each
  input token, and fewer pairs than tokens when two neighbouring tokens have the same
  token type.
\<close>

theorem generate_span_count:
  "span_opens (generate css tokens) \<le> length tokens \<and>
   span_closes (generate css tokens) = span_opens (generate css tokens) \<and>
   (adjacent_same tokens \<longrightarrow> span_opens (generate css tokens) < length tokens)"
  unfolding generate_def
  using span_opens_loop [of css None tokens]
    closes_loop [of css None tokens]
    span_opens_adjacent [of tokens css None]
  by simp

theorem generate_span_count_witness:
  "adjacent_same [([''Keyword''], ''x''), ([''Keyword''], ''y''), ([''Comment''], ''z'')] \<and>
   span_opens (generate sample_css
     [([''Keyword''], ''x''), ([''Keyword''], ''y''), ([''Comment''], ''z'')]) < 3"
  using generate_span_count [of sample_css
     "[([''Keyword''], ''x''), ([''Keyword''], ''y''), ([''Comment''], ''z'')]"]
  by simp

section \<open>Properties of the renderer\<close>

lemma init_mimetypes_Cons:
  "init_mimetypes (a # as) ms t =
     (Inr (), (\<lambda>m. if m \<in> set ms then Some (a, QUALITY_RATIO) else t m))"
proof (induction ms arbitrary: t)
  case Nil
  show ?case by simp
next
  case (Cons m ms)
  show ?case by (simp add: Cons.IH fun_eq_iff)
qed

lemma init_mimetypes_Nil:
  "init_mimetypes [] ms t = (if ms = [] then (Inr (), t) else (Inl IndexError, t))"
  by (cases ms) simp_all

lemma init_lexers_table:
  "init_lexers ls t0 = (Inr u, t) \<Longrightarrow>
   t m = (case builtin_entry ls m of Some entry \<Rightarrow> Some entry | None \<Rightarrow> t0 m)"
proof (induction ls arbitrary: t0)
  case Nil
  then show ?case by simp
next
  case (Cons l ls)
  obtain name aliases filenames mimetypes where l: "l = (name, aliases, filenames, mimetypes)"
    by (cases l)
  show ?case
  proof (cases aliases)
    case Nil
    with Cons.prems l have ms: "mimetypes = []" and rest: "init_lexers ls t0 = (Inr u, t)"
      by (auto simp: init_mimetypes_Nil split: if_splits)
    show ?thesis
      using Cons.IH [OF rest] by (simp add: l ms split: option.splits)
  next
    case (Cons a as)
    with Cons.prems l have rest:
      "init_lexers ls (\<lambda>m. if m \<in> set mimetypes then Some (a, QUALITY_RATIO) else t0 m) = (Inr u, t)"
      by (simp add: init_mimetypes_Cons)
    show ?thesis
      using Cons.IH [OF rest] by (simp add: l Cons split: option.splits)
  qed
qed

text \<open>
  C7, as amended. When the table is there (the component holds it, or builds it at this
  first use without an error), \<^verbatim>\<open>get_quality_ratio\<close> returns the integer 0 for a
  MIME type that is absent from it and raises nothing: the \<^verbatim>\<open>KeyError\<close> of the
  lookup is caught.
\<close>

theorem quality_absent:
  assumes "ensure_types e self = (Inr u, self')" and "self_types self' = Some t"
    and "t mimetype = None"
  shows "get_quality_ratio e self mimetype = (Inr 0, self')"
  using assms by (simp add: get_quality_ratio_def types_getitem_def)

theorem quality_absent_witness:
  "ensure_types sample_env sample_renderer = (Inr (), sample_renderer) \<and>
   self_types sample_renderer = Some sample_types \<and>
   sample_types ''text/x-unknown'' = None \<and>
   get_quality_ratio sample_env sample_renderer ''text/x-unknown'' = (Inr 0, sample_renderer)"
proof -
  have a: "ensure_types sample_env sample_renderer = (Inr (), sample_renderer)"
    by (simp add: ensure_types_def sample_renderer_def)
  have b: "self_types sample_renderer = Some sample_types"
    by (simp add: sample_renderer_def)
  have c: "sample_types ''text/x-unknown'' = None"
    by (simp add: sample_types_def)
  show ?thesis
    using a b c
      quality_absent [where t = sample_types and mimetype = "''text/x-unknown''", OF a b c]
    by simp
qed

text \<open>
  C7 as stated fails at the first use when a lexer that declares a MIME type has no
  alias: \<^verbatim>\<open>_init_types\<close> runs outside the \<^verbatim>\<open>try\<close> and \<^verbatim>\<open>aliases[0]\<close> raises
  \<^verbatim>\<open>IndexError\<close>, for a MIME type that is absent from the table left behind.
\<close>

theorem quality_absent_counterexample:
  "fst (get_quality_ratio sample_env_no_alias \<lparr>self_types = None\<rparr> ''text/x-unknown'') =
     Inl IndexError \<and>
   types_getitem (snd (get_quality_ratio sample_env_no_alias \<lparr>self_types = None\<rparr>
     ''text/x-unknown'')) ''text/x-unknown'' = Inl KeyError"
  by (simp add: get_quality_ratio_def ensure_types_def init_types_def sample_env_no_alias_def
        get_all_lexers_def types_getitem_def)

text \<open>
  C8, as amended. When Pygments is present and \<^verbatim>\<open>_init_types\<close> completes, looking a
  MIME type up in the table gives its configured entry if it has one, else the first
  alias and the quality 7 of the last lexer, in the order of enumeration, that declares
  it, else a \<^verbatim>\<open>KeyError\<close>.
\<close>

theorem init_types_table:
  assumes "have_pygments e" and "init_types e self = (Inr u, self')"
  shows "types_getitem self' m =
    (case resolved_entry e m of None \<Rightarrow> Inl KeyError | Some entry \<Rightarrow> Inr entry)"
proof -
  obtain r t where run:
    "init_lexers (get_all_lexers (LEXERS e) (find_plugin_lexers e)) Map.empty = (r, t)"
    by (cases "init_lexers (get_all_lexers (LEXERS e) (find_plugin_lexers e)) Map.empty")
  from assms run obtain u' where ok: "r = Inr u'"
    and self': "self' = self\<lparr>self_types := Some (t ++ configured_modes_mapping e)\<rparr>"
    by (cases r) (auto simp: init_types_def)
  have built: "t m = builtin_entry (get_all_lexers (LEXERS e) (find_plugin_lexers e)) m"
    using init_lexers_table [OF run [unfolded ok], of m] by (simp split: option.splits)
  show ?thesis
    by (simp add: self' types_getitem_def resolved_entry_def map_add_def built
          split: option.splits)
qed

theorem init_types_table_witness:
  "have_pygments sample_env \<and>
   init_types sample_env \<lparr>self_types = None\<rparr> =
     (Inr (), snd (init_types sample_env \<lparr>self_types = None\<rparr>)) \<and>
   types_getitem (snd (init_types sample_env \<lparr>self_types = None\<rparr>)) ''text/x-python'' =
     Inr (''python3'', 7) \<and>
   types_getitem (snd (init_types sample_env \<lparr>self_types = None\<rparr>)) ''text/x-python3'' =
     Inr (''python'', 9)"
proof -
  have h: "have_pygments sample_env" by (simp add: sample_env_def)
  have r: "init_types sample_env \<lparr>self_types = None\<rparr> =
     (Inr (), snd (init_types sample_env \<lparr>self_types = None\<rparr>))"
    by (simp add: init_types_def sample_env_def get_all_lexers_def)
  show ?thesis
    using h r init_types_table [OF h r, of "''text/x-python''"]
      init_types_table [OF h r, of "''text/x-python3''"]
    by (simp add: resolved_entry_def sample_env_def get_all_lexers_def QUALITY_RATIO_def)
qed

text \<open>
  C8 as stated fails when two lexers declare one MIME type: the lexer \<^verbatim>\<open>Python\<close>
  declares \<^verbatim>\<open>text/x-python\<close>, which has no configured entry, and the table maps it to
  the first alias of the later lexer.
\<close>

theorem init_types_table_counterexample:
  "(''Python'', [''python'', ''py''], [''*.py''], [''text/x-python'']) \<in>
     set (get_all_lexers (LEXERS sample_env) (find_plugin_lexers sample_env)) \<and>
   configured_modes_mapping sample_env ''text/x-python'' = None \<and>
   types_getitem (snd (init_types sample_env \<lparr>self_types = None\<rparr>)) ''text/x-python'' =
     Inr (''python3'', 7) \<and>
   (''python3'', 7) \<noteq> (''python'', QUALITY_RATIO)"
  by (simp add: init_types_def sample_env_def get_all_lexers_def QUALITY_RATIO_def
        types_getitem_def map_add_def)




text \<open>
  C10. For a request whose style name the style lookup does not know (it raises
  \<^verbatim>\<open>ClassNotFound\<close>, a \<^verbatim>\<open>ValueError\<close>), \<^verbatim>\<open>process_request\<close> reaches
  \<^verbatim>\<open>raise HTTPNotFound(e)\<close>; with the names that \<^verbatim>\<open>trac.core\<close> exports the name
  \<^verbatim>\<open>HTTPNotFound\<close> is unbound and the handler raises \<^verbatim>\<open>NameError\<close>.
\<close>

theorem process_request_unknown_style:
  "have_pygments sample_env \<and>
   req_args sample_request ''style'' = Some ''nosuchstyle'' \<and>
   get_style_by_name sample_pygments ''nosuchstyle'' =
     Inl (ValueError ''Could not find style module'') \<and>
   process_request sample_env sample_pygments trac_core_all sample_request = Inl NameError"
  by (simp add: process_request_def sample_env_def sample_request_def sample_pygments_def
        sample_style_by_name_def trac_core_all_def)

end
